theory Spec2Isabelle
  imports Complex_Main
begin

section \<open>JavaScript numbers and values\<close>

text \<open>
  The numbers of \<^verbatim>\<open>getData\<close> are JavaScript Numbers. They are modelled as exact rationals
  together with the not-a-number value. The quantities read from an RRD file (last update,
  steps, row counts) are integers, the query times are milliseconds, and the operations
  used on them (\<^verbatim>\<open>+ - * %\<close>, division by 1000 and by a step, comparisons,
  \<^verbatim>\<open>Math.max\<close>, \<^verbatim>\<open>Math.min\<close>) are modelled by their exact mathematical value; the
  rounding of IEEE doubles is not modelled. The infinities do not occur:
  \<^verbatim>\<open>getData\<close> divides by 1000 and by a step that has passed the \<^verbatim>\<open>!step\<close> test only.
\<close>

datatype jsnum = Num rat | NaN

fun js_add :: "jsnum \<Rightarrow> jsnum \<Rightarrow> jsnum" where
  "js_add (Num a) (Num b) = Num (a + b)"
| "js_add _ _ = NaN"

fun js_sub :: "jsnum \<Rightarrow> jsnum \<Rightarrow> jsnum" where
  "js_sub (Num a) (Num b) = Num (a - b)"
| "js_sub _ _ = NaN"

fun js_mul :: "jsnum \<Rightarrow> jsnum \<Rightarrow> jsnum" where
  "js_mul (Num a) (Num b) = Num (a * b)"
| "js_mul _ _ = NaN"

fun js_div :: "jsnum \<Rightarrow> jsnum \<Rightarrow> jsnum" where
  "js_div (Num a) (Num b) = (if b = 0 then NaN else Num (a / b))"
| "js_div _ _ = NaN"

definition trunc :: "rat \<Rightarrow> int" where
  "trunc x = (if 0 \<le> x then \<lfloor>x\<rfloor> else \<lceil>x\<rceil>)"

text \<open>The remainder operator \<^verbatim>\<open>%\<close>: the result takes the sign of the dividend, and a zero
  divisor gives not-a-number.\<close>

fun js_mod :: "jsnum \<Rightarrow> jsnum \<Rightarrow> jsnum" where
  "js_mod (Num a) (Num b) = (if b = 0 then NaN else Num (a - b * of_int (trunc (a / b))))"
| "js_mod _ _ = NaN"

text \<open>Every comparison with not-a-number is false.\<close>

fun js_le :: "jsnum \<Rightarrow> jsnum \<Rightarrow> bool" where
  "js_le (Num a) (Num b) = (a \<le> b)"
| "js_le _ _ = False"

fun js_lt :: "jsnum \<Rightarrow> jsnum \<Rightarrow> bool" where
  "js_lt (Num a) (Num b) = (a < b)"
| "js_lt _ _ = False"

fun js_ge :: "jsnum \<Rightarrow> jsnum \<Rightarrow> bool" where
  "js_ge (Num a) (Num b) = (b \<le> a)"
| "js_ge _ _ = False"

fun js_max :: "jsnum \<Rightarrow> jsnum \<Rightarrow> jsnum" where
  "js_max (Num a) (Num b) = Num (max a b)"
| "js_max _ _ = NaN"

fun js_min :: "jsnum \<Rightarrow> jsnum \<Rightarrow> jsnum" where
  "js_min (Num a) (Num b) = Num (min a b)"
| "js_min _ _ = NaN"

text \<open>
  A time argument: a number, possibly not-a-number (the charts pass the result of
  \<^verbatim>\<open>parseInt\<close>), or an argument that the caller leaves out or passes as \<^verbatim>\<open>null\<close>.
\<close>

datatype jsval = Undefined | Null | Number jsnum

fun toNumber :: "jsval \<Rightarrow> jsnum" where
  "toNumber Undefined = NaN"
| "toNumber Null = Num 0"
| "toNumber (Number n) = n"

fun truthy :: "jsval \<Rightarrow> bool" where
  "truthy (Number (Num r)) = (r \<noteq> 0)"
| "truthy _ = False"

text \<open>What \<^verbatim>\<open>Array.prototype.join\<close> prints for an element: a number is printed, and
  \<^verbatim>\<open>null\<close> and \<^verbatim>\<open>undefined\<close> give the empty string.\<close>

fun printed :: "jsval \<Rightarrow> jsnum option" where
  "printed (Number n) = Some n"
| "printed _ = None"


section \<open>The parsed RRD file\<close>

text \<open>
  The RRD file object belongs to the javascriptrrd library. Its accessors are the fields
  of the records below: \<^verbatim>\<open>getNrRRAs()\<close> and \<^verbatim>\<open>getRRA(i)\<close> are the length and the
  elements of \<open>rras\<close>; the cell accessor \<^verbatim>\<open>getEl(row, ds)\<close> of an archive is a parameter,
  whose result is a number or the not-a-number marker of a cell without data.
\<close>

record RRA =
  getCFName :: string
  getStep :: int
  getNrRows :: int
  getEl :: "rat \<Rightarrow> nat \<Rightarrow> jsnum"

record DS =
  getName :: string
  getIdx :: nat

record RRDFile =
  getLastUpdate :: int
  getMinStep :: int
  rras :: "RRA list"
  dsNames :: "string list"

datatype ds_id = DsIndex int | DsName string

text \<open>A RangeError carries the two values that its message prints after
  \<^verbatim>\<open>starttime:\<close> and \<^verbatim>\<open>endtime:\<close>.\<close>

datatype error =
    RangeError "jsnum option" "jsnum option"
  | LookupError ds_id
  | UnrecognisedCF string
  | RraIndexError int
  | UndefinedRra

fun indexOf :: "string \<Rightarrow> string list \<Rightarrow> nat option" where
  "indexOf n [] = None"
| "indexOf n (x # xs) = (if x = n then Some 0 else map_option Suc (indexOf n xs))"

text \<open>
  Modelled from the spec: \<^verbatim>\<open>RRDFile.getDS\<close> of the javascriptrrd library. The data source
  is looked up by index or by name in the file's list of data sources, and an unknown
  identifier fails with a "not found" error.
\<close>

fun getDS :: "RRDFile \<Rightarrow> ds_id \<Rightarrow> error + DS" where
  "getDS f (DsIndex i) =
     (if 0 \<le> i \<and> i < int (length (dsNames f))
      then Inr \<lparr>getName = dsNames f ! nat i, getIdx = nat i\<rparr>
      else Inl (LookupError (DsIndex i)))"
| "getDS f (DsName n) =
     (case indexOf n (dsNames f) of
        None \<Rightarrow> Inl (LookupError (DsName n))
      | Some k \<Rightarrow> Inr \<lparr>getName = n, getIdx = k\<rparr>)"


section \<open>jarmon.RrdQuery.getData\<close>

record RrdQuery =
  rrd :: RRDFile
  unit :: string

record flot =
  label :: string
  data :: "(jsnum \<times> jsnum) list"
  flot_unit :: string
  firstUpdated :: jsnum
  lastUpdated :: jsnum

text \<open>The four variables that the archive loop assigns together once an archive uses the
  requested consolidation function.\<close>

record sel =
  step :: int
  rraRowCount :: int
  lastRowTime :: jsnum
  firstRowTime :: jsnum

text \<open>The values that lines 198 to 201 give them for an archive.\<close>

definition candidate :: "int \<Rightarrow> RRA \<Rightarrow> sel" where
  "candidate lastUpd a =
     (let lrt = js_sub (Num (of_int lastUpd))
                  (js_mod (Num (of_int lastUpd)) (Num (of_int (getStep a))));
          frt = js_sub lrt (js_mul (Num (of_int (getNrRows a))) (Num (of_int (getStep a))))
      in \<lparr>step = getStep a, rraRowCount = getNrRows a,
          lastRowTime = lrt, firstRowTime = frt\<rparr>)"

text \<open>
  The loop over the archives (lines 188 to 209). The state is the pair of the variable
  \<^verbatim>\<open>rra\<close>, assigned at every iteration before the test of the consolidation function,
  and of the four variables above; all are undefined before the loop.
\<close>

fun selectRRA :: "int \<Rightarrow> jsnum \<Rightarrow> string \<Rightarrow> RRA list \<Rightarrow> RRA option \<times> sel option
    \<Rightarrow> RRA option \<times> sel option" where
  "selectRRA lastUpd startTime cfName [] v = v"
| "selectRRA lastUpd startTime cfName (a # as) (rra, s) =
     (if getCFName a \<noteq> cfName then selectRRA lastUpd startTime cfName as (Some a, s)
      else
        let s' = candidate lastUpd a
        in if js_le (firstRowTime s') startTime then (Some a, Some s')
           else selectRRA lastUpd startTime cfName as (Some a, Some s'))"

text \<open>The end time in seconds (lines 171 to 175).\<close>

definition endTimeOf :: "RRDFile \<Rightarrow> jsval \<Rightarrow> jsnum" where
  "endTimeOf f endTimeJs =
     (if truthy endTimeJs then js_div (toNumber endTimeJs) (Num 1000)
      else js_sub (Num (of_int (getLastUpdate f)))
             (js_mod (Num (of_int (getLastUpdate f))) (Num (of_int (getMinStep f)))))"

text \<open>The aligned row window (lines 219 to 236).\<close>

record window =
  startRowTime :: jsnum
  endRowTime :: jsnum
  startRowIndex :: jsnum
  endRowIndex :: jsnum

definition rowWindow :: "sel \<Rightarrow> jsnum \<Rightarrow> jsnum \<Rightarrow> window" where
  "rowWindow s startTime endTime =
     (let stp = Num (of_int (step s));
          srt0 = js_max (firstRowTime s) (js_sub startTime (js_mod startTime stp));
          ert = js_min (lastRowTime s) (js_sub endTime (js_mod endTime stp));
          srt = js_min srt0 ert
      in \<lparr>startRowTime = srt, endRowTime = ert,
          startRowIndex = js_sub (Num (of_int (rraRowCount s)))
                            (js_div (js_sub (lastRowTime s) srt) stp),
          endRowIndex = js_sub (Num (of_int (rraRowCount s)))
                          (js_div (js_sub (lastRowTime s) ert) stp)\<rparr>)"

text \<open>The loop over the rows (lines 241 to 247), with the series built so far as the
  last argument.\<close>

function rowLoop :: "(rat \<Rightarrow> nat \<Rightarrow> jsnum) \<Rightarrow> nat \<Rightarrow> jsnum \<Rightarrow> jsnum \<Rightarrow> jsnum \<Rightarrow> jsnum
    \<Rightarrow> (jsnum \<times> jsnum) list \<Rightarrow> (jsnum \<times> jsnum) list" where
  "rowLoop el dsIndex stp e NaN timestamp flotData = flotData"
| "rowLoop el dsIndex stp e (Num i) timestamp flotData =
     (if js_lt (Num i) e
      then rowLoop el dsIndex stp e (js_add (Num i) (Num 1)) (js_add timestamp stp)
             (flotData @ [(js_mul timestamp (Num 1000), el i dsIndex)])
      else flotData)"
  by pat_completeness auto
termination
proof (relation "measure (\<lambda>(el, d, stp, e, i, t, acc).
          case (e, i) of (Num b, Num a) \<Rightarrow> nat \<lceil>b - a\<rceil> | _ \<Rightarrow> 0)")
  show "wf (measure (\<lambda>(el :: rat \<Rightarrow> nat \<Rightarrow> jsnum, d :: nat, stp :: jsnum, e, i, t :: jsnum,
          acc :: (jsnum \<times> jsnum) list).
          case (e, i) of (Num b, Num a) \<Rightarrow> nat \<lceil>b - a\<rceil> | _ \<Rightarrow> 0))"
    by simp
next
  fix el :: "rat \<Rightarrow> nat \<Rightarrow> jsnum" and dsIndex :: nat and stp e :: jsnum and i :: rat
    and timestamp :: jsnum and flotData :: "(jsnum \<times> jsnum) list"
  assume lt: "js_lt (Num i) e"
  then obtain b where e: "e = Num b" and ab: "i < b"
    by (cases e) auto
  have "b - (i + 1) = (b - i) - 1"
    by simp
  then have "\<lceil>b - (i + 1)\<rceil> = \<lceil>b - i\<rceil> - 1"
    by (simp only: ceiling_diff_one)
  moreover have "0 < \<lceil>b - i\<rceil>"
    using ab by simp
  ultimately have "nat \<lceil>b - (i + 1)\<rceil> < nat \<lceil>b - i\<rceil>"
    by linarith
  then show "((el, dsIndex, stp, e, js_add (Num i) (Num 1), js_add timestamp stp,
               flotData @ [(js_mul timestamp (Num 1000), el i dsIndex)]),
              (el, dsIndex, stp, e, Num i, timestamp, flotData))
             \<in> measure (\<lambda>(el, d, stp, e, i, t, acc).
                 case (e, i) of (Num b, Num a) \<Rightarrow> nat \<lceil>b - a\<rceil> | _ \<Rightarrow> 0)"
    using e by simp
qed

text \<open>
  The global object of the page, as far as \<^verbatim>\<open>getData\<close> touches it: a variable assigned
  without a declaration is a property of the global object.
\<close>

type_synonym globals = "string \<rightharpoonup> jsnum"

text \<open>
  \<^verbatim>\<open>getData\<close> (lines 145 to 257). The result is the exception raised or the data series,
  paired with the global object after the call. An exception leaves the global object as
  it was, since the only assignment to it is at line 252.
\<close>

definition getData :: "RrdQuery \<Rightarrow> globals \<Rightarrow> jsval \<Rightarrow> jsval \<Rightarrow> ds_id option \<Rightarrow> string option
    \<Rightarrow> (error + flot) \<times> globals" where
  "getData this g startTimeJs endTimeJs dsId cfName =
     (if js_ge (toNumber startTimeJs) (toNumber endTimeJs)
      then (Inl (RangeError (printed startTimeJs) (printed endTimeJs)), g)
      else
        let startTime = js_div (toNumber startTimeJs) (Num 1000);
            lastUpd = getLastUpdate (rrd this);
            endTime = endTimeOf (rrd this) endTimeJs;
            dsId' = (case dsId of None \<Rightarrow> DsIndex 0 | Some d \<Rightarrow> d)
        in case getDS (rrd this) dsId' of
             Inl err \<Rightarrow> (Inl err, g)
           | Inr ds \<Rightarrow>
               let cfName' = (case cfName of None \<Rightarrow> ''AVERAGE'' | Some c \<Rightarrow> c)
               in case selectRRA lastUpd startTime cfName' (rras (rrd this)) (None, None) of
                    (_, None) \<Rightarrow> (Inl (UnrecognisedCF cfName'), g)
                  | (None, Some s) \<Rightarrow> (Inl UndefinedRra, g)
                  | (Some rra, Some s) \<Rightarrow>
                      if step s = 0 then (Inl (UnrecognisedCF cfName'), g)
                      else
                        let w = rowWindow s startTime endTime;
                            flotData = rowLoop (getEl rra) (getIdx ds) (Num (of_int (step s)))
                                         (endRowIndex w) (startRowIndex w) (startRowTime w) []
                        in if rras (rrd this) = []
                           then (Inl (RraIndexError (- 1)), g)
                           else
                             let rra' = last (rras (rrd this));
                                 fu = Num (of_int (lastUpd
                                        - (getNrRows rra' - 1) * getStep rra'));
                                 g' = g(''firstUpdated'' \<mapsto> fu)
                             in (Inr \<lparr>label = getName ds, data = flotData,
                                      flot_unit = unit this,
                                      firstUpdated = js_mul fu (Num 1000),
                                      lastUpdated = js_mul (Num (of_int lastUpd)) (Num 1000)\<rparr>,
                                 g'))"


section \<open>RrdQueryRemote: downloads in flight\<close>

text \<open>
  A \<^verbatim>\<open>MochiKit.Async.Deferred\<close> returned by the downloader: \<open>fired\<close> is \<open>-1\<close> until the
  download has completed, and \<open>chained\<close> counts the callbacks that \<^verbatim>\<open>addBoth\<close> has added
  for the callers of \<^verbatim>\<open>_callRemote\<close>.
\<close>

record Deferred =
  fired :: int
  chained :: nat

record RrdQueryRemote =
  url :: string
  remote_unit :: string
  lastUpdate :: int
  download :: "nat option"

text \<open>
  The object together with the Deferreds that its downloader has returned so far, in the
  order of the calls; \<^verbatim>\<open>this._download\<close> refers to one of them by its position.
\<close>

record page =
  self :: RrdQueryRemote
  started :: "Deferred list"

definition newRrdQueryRemote :: "string \<Rightarrow> string \<Rightarrow> page" where
  "newRrdQueryRemote u un =
     \<lparr>self = \<lparr>url = u, remote_unit = un, lastUpdate = 0, download = None\<rparr>, started = []\<rparr>"

text \<open>\<^verbatim>\<open>this.downloader(this.url)\<close>, assigned to \<^verbatim>\<open>this._download\<close>.\<close>

definition startDownload :: "page \<Rightarrow> page" where
  "startDownload pg =
     pg\<lparr>started := started pg @ [\<lparr>fired = - 1, chained = 0\<rparr>],
        self := (self pg)\<lparr>download := Some (length (started pg))\<rparr>\<rparr>"

text \<open>\<^verbatim>\<open>this._download.addBoth(...)\<close>: the caller's Deferred is chained to the current
  download.\<close>

definition addBoth :: "page \<Rightarrow> page" where
  "addBoth pg =
     (case download (self pg) of
        None \<Rightarrow> pg
      | Some d \<Rightarrow>
          if d < length (started pg)
          then pg\<lparr>started := (started pg)[d := (started pg ! d)
                                   \<lparr>chained := Suc (chained (started pg ! d))\<rparr>]\<rparr>
          else pg)"

text \<open>\<^verbatim>\<open>jarmon.RrdQueryRemote.prototype._callRemote\<close> (jarmon.js, lines 291 to 328).\<close>

definition callRemote :: "page \<Rightarrow> page" where
  "callRemote pg = addBoth (if download (self pg) = None then startDownload pg else pg)"

text \<open>\<^verbatim>\<open>jarmon.RrdQueryRemote.prototype.getData\<close> (jarmon.js, lines 331 to 345).\<close>

definition remote_getData :: "page \<Rightarrow> jsval \<Rightarrow> page" where
  "remote_getData pg endTime =
     callRemote
       (if js_lt (Num (of_int (lastUpdate (self pg)))) (js_div (toNumber endTime) (Num 1000))
        then pg\<lparr>self := (self pg)\<lparr>download := None\<rparr>\<rparr>
        else pg)"

text \<open>The download \<open>d\<close> completes with an RRD file whose last update is \<open>lu\<close>: the callback
  of lines 297 to 304 runs.\<close>

definition downloaded :: "page \<Rightarrow> nat \<Rightarrow> int \<Rightarrow> page" where
  "downloaded pg d lu =
     pg\<lparr>started := (started pg)[d := (started pg ! d)\<lparr>fired := 0\<rparr>],
        self := (self pg)\<lparr>lastUpdate := lu\<rparr>\<rparr>"

text \<open>\<^verbatim>\<open>jrrd.RrdQueryRemote.prototype.getData\<close> (jrrd.js, lines 181 to 229); the end time
  is a \<^verbatim>\<open>Date\<close>, given by its milliseconds.\<close>

definition jrrd_remote_getData :: "page \<Rightarrow> rat \<Rightarrow> page" where
  "jrrd_remote_getData pg endTime =
     (let endTimestamp = endTime / 1000
      in addBoth
           (if (case download (self pg) of
                  None \<Rightarrow> True
                | Some d \<Rightarrow> fired (started pg ! d) > - 1
                            \<and> of_int (lastUpdate (self pg)) < endTimestamp)
            then startDownload pg else pg))"

text \<open>The downloads that have started and not completed.\<close>

definition outstanding :: "page \<Rightarrow> nat list" where
  "outstanding pg = filter (\<lambda>d. fired (started pg ! d) = - 1) [0..<length (started pg)]"


section \<open>An example file\<close>

text \<open>
  Last update at 1000 seconds and one data source. The first archive has the consolidation
  function AVERAGE, ten rows of ten seconds and the cell value 1 everywhere; the second has
  MAX, twenty rows of ten seconds and the cell value 2 everywhere.
\<close>

definition avgRRA :: RRA where
  "avgRRA = \<lparr>getCFName = ''AVERAGE'', getStep = 10, getNrRows = 10, getEl = (\<lambda>i d. Num 1)\<rparr>"

definition maxRRA :: RRA where
  "maxRRA = \<lparr>getCFName = ''MAX'', getStep = 10, getNrRows = 20, getEl = (\<lambda>i d. Num 2)\<rparr>"

definition exampleFile :: RRDFile where
  "exampleFile = \<lparr>getLastUpdate = 1000, getMinStep = 10, rras = [avgRRA, maxRRA],
                   dsNames = [''value'']\<rparr>"

definition exampleQuery :: RrdQuery where
  "exampleQuery = \<lparr>rrd = exampleFile, unit = ''B''\<rparr>"

text \<open>The result and the row window of the query from 950 to 1000 seconds, for the first
  data source and AVERAGE.\<close>

definition exampleResult :: flot where
  "exampleResult =
     \<lparr>label = ''value'',
      data = [(Num 950000, Num 1), (Num 960000, Num 1), (Num 970000, Num 1),
              (Num 980000, Num 1), (Num 990000, Num 1)],
      flot_unit = ''B'', firstUpdated = Num 810000, lastUpdated = Num 1000000\<rparr>"

definition exampleWindow :: window where
  "exampleWindow = \<lparr>startRowTime = Num 950, endRowTime = Num 1000, startRowIndex = Num 5,
      endRowIndex = Num 10\<rparr>"

text \<open>The result of a query on the example file whose series is empty.\<close>

definition emptyResult :: flot where
  "emptyResult =
     \<lparr>label = ''value'', data = [], flot_unit = ''B'',
      firstUpdated = Num 810000, lastUpdated = Num 1000000\<rparr>"

text \<open>The same file with an AVERAGE archive whose step is 0.\<close>

definition zeroStepFile :: RRDFile where
  "zeroStepFile = exampleFile\<lparr>rras := [avgRRA\<lparr>getStep := 0\<rparr>, maxRRA]\<rparr>"


section \<open>The archive loop\<close>

lemma selectRRA_None:
  "snd (selectRRA lu st cf as (r, s)) = None \<longleftrightarrow> s = None \<and> (\<forall>a\<in>set as. getCFName a \<noteq> cf)"
  by (induction as arbitrary: r s) (auto simp: Let_def)

lemma selectRRA_rra:
  "r \<noteq> None \<or> as \<noteq> [] \<Longrightarrow> fst (selectRRA lu st cf as (r, s)) \<noteq> None"
  by (induction as arbitrary: r s) (auto simp: Let_def)

lemma selectRRA_nonempty:
  "selectRRA lu st cf as (r, None) = (r', Some s') \<Longrightarrow> as \<noteq> []"
  by (cases as) auto

lemma selectRRA_candidate:
  "snd (selectRRA lu st cf as (r, s)) = Some s' \<Longrightarrow>
     s = Some s' \<or> (\<exists>a\<in>set as. getCFName a = cf \<and> s' = candidate lu a)"
  by (induction as arbitrary: r s) (auto simp: Let_def split: if_splits)

lemma selectRRA_first:
  assumes "getCFName a = cf" "js_le (firstRowTime (candidate lu a)) st"
    and "\<forall>b\<in>set pre. getCFName b = cf \<longrightarrow> \<not> js_le (firstRowTime (candidate lu b)) st"
  shows "selectRRA lu st cf (pre @ a # post) (r, s) = (Some a, Some (candidate lu a))"
  using assms by (induction pre arbitrary: r s) (auto simp: Let_def)

lemma selectRRA_fallback:
  assumes "\<forall>b\<in>set as. getCFName b = cf \<longrightarrow> \<not> js_le (firstRowTime (candidate lu b)) st"
    and "as \<noteq> []"
  shows "selectRRA lu st cf as (r, s) =
           (Some (last as),
            case filter (\<lambda>b. getCFName b = cf) as of [] \<Rightarrow> s
            | _ \<Rightarrow> Some (candidate lu (last (filter (\<lambda>b. getCFName b = cf) as))))"
  using assms
proof (induction as arbitrary: r s)
  case Nil
  then show ?case by simp
next
  case (Cons a as)
  show ?case
  proof (cases "as = []")
    case True
    with Cons.prems show ?thesis by (auto simp: Let_def)
  next
    case False
    with Cons show ?thesis by (auto simp: Let_def split: list.splits)
  qed
qed


section \<open>The row window and the row loop\<close>

declare rowLoop.simps [simp del]

lemma rowLoop_NaN_end: "rowLoop el d stp NaN i t acc = acc"
  by (cases i) (simp_all add: rowLoop.simps)

lemma rowLoop_NaN_start: "rowLoop el d stp e NaN t acc = acc"
  by (simp add: rowLoop.simps)

lemma rowLoop_closed:
  "rowLoop el d (Num st) (Num b) (Num a) (Num t) acc =
     acc @ map (\<lambda>k. (Num ((t + of_nat k * st) * 1000), el (a + of_nat k) d)) [0..<nat \<lceil>b - a\<rceil>]"
proof (induction "nat \<lceil>b - a\<rceil>" arbitrary: a t acc)
  case 0
  then have "\<not> a < b" by (simp add: ceiling_le_zero)
  with 0 show ?case by (simp add: rowLoop.simps)
next
  case (Suc n)
  from Suc.hyps(2) have "0 < \<lceil>b - a\<rceil>" by linarith
  then have lt: "a < b" by simp
  have "b - (a + 1) = (b - a) - 1" by simp
  then have "\<lceil>b - (a + 1)\<rceil> = \<lceil>b - a\<rceil> - 1" by (simp only: ceiling_diff_one)
  with Suc.hyps(2) have n: "n = nat \<lceil>b - (a + 1)\<rceil>" by linarith
  have "rowLoop el d (Num st) (Num b) (Num a) (Num t) acc =
        rowLoop el d (Num st) (Num b) (Num (a + 1)) (Num (t + st)) (acc @ [(Num (t * 1000), el a d)])"
    using lt by (simp add: rowLoop.simps)
  also have "\<dots> = (acc @ [(Num (t * 1000), el a d)]) @
      map (\<lambda>k. (Num ((t + st + of_nat k * st) * 1000), el (a + 1 + of_nat k) d)) [0..<n]"
    using Suc.hyps(1)[OF n] n by simp
  also have "\<dots> = acc @ map (\<lambda>k. (Num ((t + of_nat k * st) * 1000), el (a + of_nat k) d)) [0..<Suc n]"
    by (simp add: map_upt_Suc algebra_simps del: upt_Suc)
  finally show ?case using Suc.hyps(2) by simp
qed

lemma js_sub_mod:
  "b \<noteq> 0 \<Longrightarrow> js_sub (Num x) (js_mod (Num x) (Num (of_int b)))
     = Num (of_int b * of_int (trunc (x / of_int b)))"
  by simp

lemma candidate_aligned:
  assumes "getStep a \<noteq> 0"
  shows "candidate lu a =
     \<lparr>step = getStep a, rraRowCount = getNrRows a,
      lastRowTime = Num (of_int (getStep a) * of_int (trunc (of_int lu / of_int (getStep a)))),
      firstRowTime = Num (of_int (getStep a)
                       * of_int (trunc (of_int lu / of_int (getStep a)) - getNrRows a))\<rparr>"
  using assms by (simp add: candidate_def Let_def algebra_simps)

lemma trunc_mono: "a \<le> b \<Longrightarrow> trunc a \<le> trunc b"
proof -
  assume ab: "a \<le> b"
  show ?thesis
  proof (cases "0 \<le> a")
    case True
    with ab have "0 \<le> b" by simp
    with True ab show ?thesis by (simp add: trunc_def floor_mono)
  next
    case False
    show ?thesis
    proof (cases "0 \<le> b")
      case True
      from False have ta: "trunc a = \<lceil>a\<rceil>" by (simp add: trunc_def)
      from True have tb: "trunc b = \<lfloor>b\<rfloor>" by (simp add: trunc_def)
      from False have "\<lceil>a\<rceil> \<le> 0" by (simp add: ceiling_le_zero)
      moreover from True have "0 \<le> \<lfloor>b\<rfloor>" by simp
      ultimately show ?thesis unfolding ta tb by linarith
    next
      case bneg: False
      with False ab show ?thesis by (simp add: trunc_def ceiling_mono)
    qed
  qed
qed

lemma rowWindow_aligned:
  assumes st0: "step sl \<noteq> 0"
    and lrt: "lastRowTime sl = Num (of_int (step sl) * of_int k)"
    and frt: "firstRowTime sl = Num (of_int (step sl) * of_int (k - rraRowCount sl))"
  shows "\<exists>i j. rowWindow sl (Num st) (Num et) =
           \<lparr>startRowTime = Num (of_int (step sl) * of_int i),
            endRowTime = Num (of_int (step sl) * of_int j),
            startRowIndex = Num (of_int (rraRowCount sl - (k - i))),
            endRowIndex = Num (of_int (rraRowCount sl - (k - j)))\<rparr>
         \<and> (of_int (step sl) * of_int i :: rat) \<le> of_int (step sl) * of_int j
         \<and> (et \<le> st \<longrightarrow> j \<le> i)"
proof -
  let ?s = "of_int (step sl) :: rat"
  have s0: "?s \<noteq> 0" using st0 by simp
  have m1: "js_sub (Num st) (js_mod (Num st) (Num ?s)) = Num (?s * of_int (trunc (st / ?s)))"
    using st0 by (rule js_sub_mod)
  have m2: "js_sub (Num et) (js_mod (Num et) (Num ?s)) = Num (?s * of_int (trunc (et / ?s)))"
    using st0 by (rule js_sub_mod)
  obtain i0 where i0: "max (?s * of_int (k - rraRowCount sl)) (?s * of_int (trunc (st / ?s)))
                        = ?s * of_int i0"
    by (metis max_def)
  obtain j where j: "min (?s * of_int k) (?s * of_int (trunc (et / ?s))) = ?s * of_int j"
    by (metis min_def)
  obtain i where i: "min (?s * of_int i0) (?s * of_int j) = ?s * of_int i"
    by (metis min_def)
  have le: "?s * of_int i \<le> ?s * of_int j"
    using i [symmetric] by simp
  have srt0: "js_max (firstRowTime sl) (js_sub (Num st) (js_mod (Num st) (Num ?s)))
              = Num (?s * of_int i0)"
    by (simp only: frt m1 js_max.simps i0)
  have ert: "js_min (lastRowTime sl) (js_sub (Num et) (js_mod (Num et) (Num ?s)))
              = Num (?s * of_int j)"
    by (simp only: lrt m2 js_min.simps j)
  have srt: "js_min (Num (?s * of_int i0)) (Num (?s * of_int j)) = Num (?s * of_int i)"
    by (simp only: js_min.simps i)
  have idx: "js_sub (Num (of_int (rraRowCount sl)))
               (js_div (js_sub (Num (?s * of_int k)) (Num (?s * of_int x))) (Num ?s))
             = Num (of_int (rraRowCount sl - (k - x)))" for x
    using s0 by (simp add: field_simps)
  have "rowWindow sl (Num st) (Num et) =
           \<lparr>startRowTime = Num (?s * of_int i),
            endRowTime = Num (?s * of_int j),
            startRowIndex = Num (of_int (rraRowCount sl - (k - i))),
            endRowIndex = Num (of_int (rraRowCount sl - (k - j)))\<rparr>"
    by (simp only: rowWindow_def Let_def srt0 ert ert [unfolded lrt] srt lrt idx)
  moreover have "j \<le> i" if ets: "et \<le> st"
  proof (cases "0 < ?s")
    case True
    from ets True have "et / ?s \<le> st / ?s"
      by (simp add: divide_right_mono)
    then have "trunc (et / ?s) \<le> trunc (st / ?s)" by (rule trunc_mono)
    with True have "?s * of_int (trunc (et / ?s)) \<le> ?s * of_int (trunc (st / ?s))"
      by simp
    moreover have "?s * of_int j \<le> ?s * of_int (trunc (et / ?s))"
      using j [symmetric] by simp
    moreover have "?s * of_int (trunc (st / ?s)) \<le> ?s * of_int i0"
      using i0 [symmetric] by simp
    ultimately have "?s * of_int j \<le> ?s * of_int i0" by linarith
    then have "min (?s * of_int i0) (?s * of_int j) = ?s * of_int j"
      by (rule min_absorb2)
    with i have "?s * of_int i = ?s * of_int j" by (simp only:)
    with s0 show ?thesis by simp
  next
    case False
    with s0 have "?s < 0" by simp
    with le show ?thesis by (simp add: mult_le_cancel_left)
  qed
  ultimately show ?thesis using le by blast
qed

lemma rowWindow_NaN:
  "rowWindow sl st NaN = \<lparr>startRowTime = NaN, endRowTime = NaN, startRowIndex = NaN,
      endRowIndex = NaN\<rparr>"
proof -
  have a: "js_min x NaN = NaN" for x by (cases x) simp_all
  have b: "js_sub x NaN = NaN" for x by (cases x) simp_all
  have c: "js_div NaN x = NaN" for x by simp
  show ?thesis
    by (simp add: rowWindow_def Let_def a b c)
qed

lemma rowWindow_NaN_start:
  "startRowTime (rowWindow sl NaN et) = NaN \<and> startRowIndex (rowWindow sl NaN et) = NaN"
proof -
  have a: "js_max x NaN = NaN" for x by (cases x) simp_all
  have b: "js_sub x NaN = NaN" for x by (cases x) simp_all
  show ?thesis
    by (simp add: rowWindow_def Let_def a b)
qed

section \<open>The result of a query\<close>

lemma getData_success:
  assumes "fst (getData this g s e d c) = Inr r"
  shows "\<exists>ds rra sl. \<not> js_ge (toNumber s) (toNumber e)
     \<and> getDS (rrd this) (case d of None \<Rightarrow> DsIndex 0 | Some x \<Rightarrow> x) = Inr ds
     \<and> selectRRA (getLastUpdate (rrd this)) (js_div (toNumber s) (Num 1000))
          (case c of None \<Rightarrow> ''AVERAGE'' | Some x \<Rightarrow> x) (rras (rrd this)) (None, None)
        = (Some rra, Some sl)
     \<and> step sl \<noteq> 0 \<and> rras (rrd this) \<noteq> []
     \<and> r = \<lparr>label = getName ds,
            data = rowLoop (getEl rra) (getIdx ds) (Num (of_int (step sl)))
                     (endRowIndex (rowWindow sl (js_div (toNumber s) (Num 1000)) (endTimeOf (rrd this) e)))
                     (startRowIndex (rowWindow sl (js_div (toNumber s) (Num 1000)) (endTimeOf (rrd this) e)))
                     (startRowTime (rowWindow sl (js_div (toNumber s) (Num 1000)) (endTimeOf (rrd this) e))) [],
            flot_unit = unit this,
            firstUpdated = js_mul (Num (of_int (getLastUpdate (rrd this)
                 - (getNrRows (last (rras (rrd this))) - 1) * getStep (last (rras (rrd this)))))) (Num 1000),
            lastUpdated = js_mul (Num (of_int (getLastUpdate (rrd this)))) (Num 1000)\<rparr>
     \<and> snd (getData this g s e d c) = g(''firstUpdated'' \<mapsto> Num (of_int (getLastUpdate (rrd this)
                 - (getNrRows (last (rras (rrd this))) - 1) * getStep (last (rras (rrd this))))))"
  using assms
  by (auto simp: getData_def Let_def split: if_splits sum.splits prod.splits option.splits)

lemma endTimeOf_NaN:
  "endTimeOf f e = NaN \<longleftrightarrow> \<not> truthy e \<and> getMinStep f = 0"
proof (cases "truthy e")
  case True
  then obtain r where "e = Number (Num r)" "r \<noteq> 0"
    by (cases e rule: truthy.cases) auto
  then show ?thesis by (simp add: endTimeOf_def)
next
  case False
  then show ?thesis by (simp add: endTimeOf_def)
qed

text \<open>
  The three shapes of a successful query: the end time in seconds is not a number; the
  start time is not a number; both are numbers, and then the row times are multiples of
  the step, the row indices are integers and the series is given in closed form.
\<close>

lemma getData_shape:
  assumes ok: "fst (getData this g s e d c) = Inr r"
  obtains (nan_end) ds rra sl where
      "getDS (rrd this) (case d of None \<Rightarrow> DsIndex 0 | Some x \<Rightarrow> x) = Inr ds"
      "selectRRA (getLastUpdate (rrd this)) (js_div (toNumber s) (Num 1000))
         (case c of None \<Rightarrow> ''AVERAGE'' | Some x \<Rightarrow> x) (rras (rrd this)) (None, None)
       = (Some rra, Some sl)"
      "step sl \<noteq> 0"
      "endTimeOf (rrd this) e = NaN"
      "rowWindow sl (js_div (toNumber s) (Num 1000)) (endTimeOf (rrd this) e)
         = \<lparr>startRowTime = NaN, endRowTime = NaN, startRowIndex = NaN, endRowIndex = NaN\<rparr>"
      "data r = []"
  | (nan_start) ds rra sl where
      "getDS (rrd this) (case d of None \<Rightarrow> DsIndex 0 | Some x \<Rightarrow> x) = Inr ds"
      "selectRRA (getLastUpdate (rrd this)) (js_div (toNumber s) (Num 1000))
         (case c of None \<Rightarrow> ''AVERAGE'' | Some x \<Rightarrow> x) (rras (rrd this)) (None, None)
       = (Some rra, Some sl)"
      "step sl \<noteq> 0"
      "toNumber s = NaN"
      "startRowTime (rowWindow sl (js_div (toNumber s) (Num 1000)) (endTimeOf (rrd this) e)) = NaN"
      "startRowIndex (rowWindow sl (js_div (toNumber s) (Num 1000)) (endTimeOf (rrd this) e)) = NaN"
      "data r = []"
  | (num) ds rra sl k i j x et where
      "getDS (rrd this) (case d of None \<Rightarrow> DsIndex 0 | Some x \<Rightarrow> x) = Inr ds"
      "selectRRA (getLastUpdate (rrd this)) (js_div (toNumber s) (Num 1000))
         (case c of None \<Rightarrow> ''AVERAGE'' | Some x \<Rightarrow> x) (rras (rrd this)) (None, None)
       = (Some rra, Some sl)"
      "step sl \<noteq> 0"
      "toNumber s = Num x"
      "endTimeOf (rrd this) e = Num et"
      "rowWindow sl (js_div (toNumber s) (Num 1000)) (endTimeOf (rrd this) e)
         = \<lparr>startRowTime = Num (of_int (step sl) * of_int i),
            endRowTime = Num (of_int (step sl) * of_int j),
            startRowIndex = Num (of_int (rraRowCount sl - (k - i))),
            endRowIndex = Num (of_int (rraRowCount sl - (k - j)))\<rparr>"
      "(of_int (step sl) * of_int i :: rat) \<le> of_int (step sl) * of_int j"
      "data r = map (\<lambda>n. (Num ((of_int (step sl) * of_int i
                                   + of_nat n * of_int (step sl)) * 1000),
                             getEl rra (of_int (rraRowCount sl - (k - i)) + of_nat n)
                               (getIdx ds)))
                   [0..<nat (j - i)]"
      "et \<le> x / 1000 \<longrightarrow> j \<le> i"
proof -
  let ?st = "js_div (toNumber s) (Num 1000)"
  let ?et = "endTimeOf (rrd this) e"
  let ?cf = "case c of None \<Rightarrow> ''AVERAGE'' | Some x \<Rightarrow> x"
  from getData_success [OF ok] obtain ds rra sl where
    ds: "getDS (rrd this) (case d of None \<Rightarrow> DsIndex 0 | Some x \<Rightarrow> x) = Inr ds"
    and sel: "selectRRA (getLastUpdate (rrd this)) ?st ?cf (rras (rrd this)) (None, None)
              = (Some rra, Some sl)"
    and st0: "step sl \<noteq> 0"
    and dat: "data r = rowLoop (getEl rra) (getIdx ds) (Num (of_int (step sl)))
                     (endRowIndex (rowWindow sl ?st ?et))
                     (startRowIndex (rowWindow sl ?st ?et))
                     (startRowTime (rowWindow sl ?st ?et)) []"
    by auto
  from sel have "snd (selectRRA (getLastUpdate (rrd this)) ?st ?cf (rras (rrd this)) (None, None))
                 = Some sl" by simp
  from selectRRA_candidate [OF this] obtain a where
    a: "sl = candidate (getLastUpdate (rrd this)) a" by auto
  have sa: "step sl = getStep a" by (simp add: a candidate_def Let_def)
  with st0 have ga: "getStep a \<noteq> 0" by simp
  define k where "k = trunc (of_int (getLastUpdate (rrd this)) / of_int (getStep a))"
  have lrt: "lastRowTime sl = Num (of_int (step sl) * of_int k)"
    and frt: "firstRowTime sl = Num (of_int (step sl) * of_int (k - rraRowCount sl))"
    unfolding a candidate_aligned [OF ga] k_def by simp_all
  show ?thesis
  proof (cases ?et)
    case NaN
    have w: "rowWindow sl ?st ?et
          = \<lparr>startRowTime = NaN, endRowTime = NaN, startRowIndex = NaN, endRowIndex = NaN\<rparr>"
      unfolding NaN by (rule rowWindow_NaN)
    from w dat have "data r = []"
      by (simp add: rowLoop_NaN_end)
    with ds sel st0 NaN w show ?thesis by (rule nan_end)
  next
    case (Num et)
    show ?thesis
    proof (cases "toNumber s")
      case NaN
      then have stn: "?st = NaN" by simp
      have w1: "startRowTime (rowWindow sl ?st ?et) = NaN"
        and w2: "startRowIndex (rowWindow sl ?st ?et) = NaN"
        unfolding stn using rowWindow_NaN_start [of sl ?et] by simp_all
      from dat w2 have "data r = []"
        by (simp add: rowLoop_NaN_start)
      with ds sel st0 NaN w1 w2 show ?thesis by (rule nan_start)
    next
      case x: (Num x)
      then have stn: "?st = Num (x / 1000)" by simp
      from rowWindow_aligned [OF st0 lrt frt, of "x / 1000" et] obtain i j where
        w: "rowWindow sl (Num (x / 1000)) (Num et) =
             \<lparr>startRowTime = Num (of_int (step sl) * of_int i),
              endRowTime = Num (of_int (step sl) * of_int j),
              startRowIndex = Num (of_int (rraRowCount sl - (k - i))),
              endRowIndex = Num (of_int (rraRowCount sl - (k - j)))\<rparr>"
        and le: "(of_int (step sl) * of_int i :: rat) \<le> of_int (step sl) * of_int j"
        and ji: "et \<le> x / 1000 \<longrightarrow> j \<le> i"
        by blast
      have cnt: "nat \<lceil>(of_int (rraRowCount sl - (k - j)) :: rat)
                      - of_int (rraRowCount sl - (k - i))\<rceil> = nat (j - i)"
      proof -
        have "(of_int (rraRowCount sl - (k - j)) :: rat) - of_int (rraRowCount sl - (k - i))
              = of_int (j - i)" by simp
        then show ?thesis by (simp only: ceiling_of_int)
      qed
      have "data r = map (\<lambda>n. (Num ((of_int (step sl) * of_int i
                                           + of_nat n * of_int (step sl)) * 1000),
                                     getEl rra (of_int (rraRowCount sl - (k - i)) + of_nat n)
                                       (getIdx ds)))
                           [0..<nat (j - i)]"
        unfolding dat Num stn w by (simp only: window.simps rowLoop_closed cnt append_Nil)
      with ds sel st0 x Num w [folded stn Num] le show ?thesis using ji by (rule num)
    qed
  qed
qed

lemmas example_defs = exampleQuery_def exampleFile_def avgRRA_def maxRRA_def

lemmas getData_defs = getData_def endTimeOf_def candidate_def rowWindow_def Let_def rowLoop.simps

lemma trunc_numeral [simp]: "trunc (numeral n) = numeral n" "trunc 0 = 0" "trunc 1 = 1"
  by (simp_all add: trunc_def)

lemma getData_globals:
  "snd (getData this g s e d c) =
     (case fst (getData this g s e d c) of
        Inl err \<Rightarrow> g
      | Inr r \<Rightarrow> g(''firstUpdated'' \<mapsto> Num (of_int (getLastUpdate (rrd this)
                 - (getNrRows (last (rras (rrd this))) - 1) * getStep (last (rras (rrd this)))))))"
  by (auto simp: getData_def Let_def split: sum.splits prod.splits option.splits)

text \<open>The two error branches of the model that stand for a call on an undefined archive
  and for \<^verbatim>\<open>getRRA(-1)\<close> are never taken.\<close>

lemma getData_no_library_error:
  "fst (getData this g s e d c) \<noteq> Inl UndefinedRra
   \<and> fst (getData this g s e d c) \<noteq> Inl (RraIndexError i)"
proof -
  have ds: "getDS f x \<noteq> Inl UndefinedRra \<and> getDS f x \<noteq> Inl (RraIndexError i)" for f x
    by (cases x) (auto split: option.splits)
  have sel: "selectRRA lu st cf as (None, None) \<noteq> (None, Some sl)" for lu st cf as sl
  proof
    assume a: "selectRRA lu st cf as (None, None) = (None, Some sl)"
    then have "as \<noteq> []" by (rule selectRRA_nonempty)
    then have "fst (selectRRA lu st cf as (None, None)) \<noteq> None"
      by (simp add: selectRRA_rra)
    with a show False by simp
  qed
  have ne: "rras (rrd this) \<noteq> []"
    if "selectRRA lu st cf (rras (rrd this)) (None, None) = (r', Some sl)" for lu st cf r' sl
    using that by (rule selectRRA_nonempty)
  show ?thesis
    using ds sel ne
    by (auto simp: getData_def Let_def split: sum.splits prod.splits option.splits)
qed

text \<open>The only errors of the data source lookup are lookup errors.\<close>

lemma getDS_error: "getDS f i = Inl err \<Longrightarrow> err = LookupError i"
  by (cases i) (auto split: if_splits option.splits)

lemma example_ok:
  "fst (getData exampleQuery Map.empty (Number (Num 950000)) (Number (Num 1000000)) None None)
     = Inr exampleResult"
  by (simp add: getData_defs example_defs exampleResult_def)

lemma example_sel:
  "selectRRA (getLastUpdate (rrd exampleQuery))
     (js_div (toNumber (Number (Num 950000))) (Num 1000))
     (case None of None \<Rightarrow> ''AVERAGE'' | Some x \<Rightarrow> x) (rras (rrd exampleQuery)) (None, None)
   = (Some avgRRA, Some (candidate 1000 avgRRA))"
  by (simp add: example_defs candidate_def Let_def)

lemma example_snd_sel:
  "snd (selectRRA (getLastUpdate (rrd exampleQuery))
     (js_div (toNumber (Number (Num 950000))) (Num 1000))
     (case None of None \<Rightarrow> ''AVERAGE'' | Some x \<Rightarrow> x) (rras (rrd exampleQuery)) (None, None))
   = Some (candidate 1000 avgRRA)"
  by (simp only: example_sel snd_conv)

lemma example_window:
  "exampleWindow = rowWindow (candidate 1000 avgRRA)
     (js_div (toNumber (Number (Num 950000))) (Num 1000))
     (endTimeOf (rrd exampleQuery) (Number (Num 1000000)))"
  by (simp add: getData_defs example_defs exampleWindow_def)

lemma example_ds:
  "getDS (rrd exampleQuery) (case None of None \<Rightarrow> DsIndex 0 | Some x \<Rightarrow> x)
     = Inr \<lparr>getName = ''value'', getIdx = 0\<rparr>"
  by (simp add: example_defs)

text \<open>The query of the example file with a start time that is not a number.\<close>

lemma nan_start_ok:
  "fst (getData exampleQuery Map.empty (Number NaN) (Number (Num 1000000)) None None)
     = Inr emptyResult"
  by (simp add: getData_defs example_defs emptyResult_def)

lemma nan_start_snd_sel:
  "snd (selectRRA (getLastUpdate (rrd exampleQuery)) (js_div (toNumber (Number NaN)) (Num 1000))
     (case None of None \<Rightarrow> ''AVERAGE'' | Some x \<Rightarrow> x) (rras (rrd exampleQuery)) (None, None))
   = Some (candidate 1000 avgRRA)"
  by (simp add: example_defs candidate_def Let_def)

section \<open>Downloads of the remote query\<close>

lemmas remote_defs = remote_getData_def callRemote_def addBoth_def startDownload_def
  newRrdQueryRemote_def outstanding_def

text \<open>In jarmon.js a call whose end time is after the last update known to the object
  starts a download, whatever the state of the current one.\<close>

lemma remote_getData_restarts:
  assumes "js_lt (Num (of_int (lastUpdate (self pg)))) (js_div (toNumber endTime) (Num 1000))"
  shows "length (started (remote_getData pg endTime)) = Suc (length (started pg))
       \<and> download (self (remote_getData pg endTime)) = Some (length (started pg))"
  using assms by (simp add: remote_defs)

lemma remote_getData_coalesces:
  assumes "\<not> js_lt (Num (of_int (lastUpdate (self pg)))) (js_div (toNumber endTime) (Num 1000))"
    and "download (self pg) = Some d"
  shows "length (started (remote_getData pg endTime)) = length (started pg)
       \<and> download (self (remote_getData pg endTime)) = Some d"
  using assms by (simp add: remote_defs)

text \<open>Once a download has completed with a last update that is not before the end time,
  a further call starts no download.\<close>

lemma remote_getData_after_download:
  assumes "download (self pg) = Some d"
    and "\<not> js_lt (Num (of_int lu)) (js_div (toNumber endTime) (Num 1000))"
  shows "length (started (remote_getData (downloaded pg d lu) endTime)) = length (started pg)
       \<and> download (self (remote_getData (downloaded pg d lu) endTime)) = Some d"
  using assms by (simp add: remote_defs downloaded_def)

text \<open>In jrrd.js a call made while the current download has not fired is chained to it.\<close>

lemma jrrd_remote_getData_coalesces:
  assumes "download (self pg) = Some d" and "d < length (started pg)"
    and "fired (started pg ! d) = - 1"
  shows "started (jrrd_remote_getData pg endTime)
           = (started pg)[d := (started pg ! d)\<lparr>chained := Suc (chained (started pg ! d))\<rparr>]
       \<and> download (self (jrrd_remote_getData pg endTime)) = Some d"
  using assms by (simp add: jrrd_remote_getData_def addBoth_def Let_def)



section \<open>The claims\<close>

subsection \<open>C1: archive selection\<close>

text \<open>
  Claim C1: the first archive in file order that uses the requested consolidation function
  and whose coverage floor is at or before the start time is selected, and when no such
  archive covers the start time the last archive using the function is the fallback.

  The first half holds (\<open>selectRRA_first\<close>). In the fallback the step, the row count and
  the row times are those of the last archive using the function, but the variable
  \<^verbatim>\<open>rra\<close>, from which the cells are read, is the last archive of the file whatever its
  consolidation function (\<open>selectRRA_fallback\<close>), because line 191 assigns it before the
  test of line 194. In the example file a query for AVERAGE from 0 to 1000 seconds is not
  covered by the AVERAGE archive (its floor is 900 seconds): the ten rows returned carry
  the times of the AVERAGE archive and the cells of the MAX archive.
\<close>

theorem C1_fallback_reads_last_archive_of_file:
  "fst (selectRRA 1000 (js_div (Num 0) (Num 1000)) ''AVERAGE'' (rras exampleFile) (None, None))
     = Some maxRRA
   \<and> snd (selectRRA 1000 (js_div (Num 0) (Num 1000)) ''AVERAGE'' (rras exampleFile) (None, None))
     = Some (candidate 1000 avgRRA)
   \<and> fst (getData exampleQuery Map.empty (Number (Num 0)) (Number (Num 1000000)) None
            (Some ''AVERAGE'')) =
     Inr \<lparr>label = ''value'',
          data = [(Num 900000, Num 2), (Num 910000, Num 2), (Num 920000, Num 2),
                  (Num 930000, Num 2), (Num 940000, Num 2), (Num 950000, Num 2),
                  (Num 960000, Num 2), (Num 970000, Num 2), (Num 980000, Num 2),
                  (Num 990000, Num 2)],
          flot_unit = ''B'', firstUpdated = Num 810000, lastUpdated = Num 1000000\<rparr>"
  by (simp add: getData_defs example_defs)


subsection \<open>C2: the series is regular\<close>

text \<open>
  Claim C2: in the result of every query that completes without error, the timestamps of
  the series do not decrease, two consecutive timestamps differ by exactly the step of the
  chosen archive times 1000, and every timestamp lies between the start row time and the
  end row time of the row window, in milliseconds. Here \<open>s\<close> holds the step and the row
  times that the archive loop has chosen and \<open>w\<close> is the row window computed from them.
\<close>

theorem C2_series_regular:
  assumes ok: "fst (getData this g startTimeJs endTimeJs dsId cfName) = Inr r"
    and sel: "snd (selectRRA (getLastUpdate (rrd this))
                (js_div (toNumber startTimeJs) (Num 1000))
                (case cfName of None \<Rightarrow> ''AVERAGE'' | Some x \<Rightarrow> x) (rras (rrd this))
                (None, None)) = Some s"
    and w: "w = rowWindow s (js_div (toNumber startTimeJs) (Num 1000))
                  (endTimeOf (rrd this) endTimeJs)"
  shows "(\<forall>n. Suc n < length (data r) \<longrightarrow>
            js_le (fst (data r ! n)) (fst (data r ! Suc n))
          \<and> js_sub (fst (data r ! Suc n)) (fst (data r ! n)) = Num (of_int (step s) * 1000))
       \<and> (\<forall>n < length (data r).
            js_le (js_mul (startRowTime w) (Num 1000)) (fst (data r ! n))
          \<and> js_le (fst (data r ! n)) (js_mul (endRowTime w) (Num 1000)))"
  using ok
proof (cases rule: getData_shape)
  case (nan_end ds rra sl)
  then show ?thesis by simp
next
  case (nan_start ds rra sl)
  then show ?thesis by simp
next
  case (num ds rra sl k i j x et)
  from sel num(2) have eq: "sl = s" by simp
  note st0 = num(3) [unfolded eq]
  note wv = num(6) [unfolded eq, folded w]
  note le = num(7) [unfolded eq]
  note dat = num(8) [unfolded eq]
  show ?thesis
  proof -
    let ?S = "of_int (step s) :: rat"
    have len: "length (data r) = nat (j - i)" by (simp add: dat)
    have nth: "fst (data r ! n) = Num ((?S * of_int i + of_nat n * ?S) * 1000)"
      if "n < length (data r)" for n
      using that by (simp add: dat)
    have pos: "0 < ?S" if "0 < length (data r)"
    proof -
      from that len have ij: "i < j" by simp
      show ?thesis
      proof (rule ccontr)
        assume "\<not> 0 < ?S"
        with st0 have "?S < 0" by simp
        with ij have "?S * of_int j < ?S * of_int i"
          by (simp add: mult_less_cancel_left)
        with le show False by simp
      qed
    qed
    have step1: "js_le (fst (data r ! n)) (fst (data r ! Suc n))
          \<and> js_sub (fst (data r ! Suc n)) (fst (data r ! n)) = Num (?S * 1000)"
      if "Suc n < length (data r)" for n
    proof -
      from that have "0 < length (data r)" by linarith
      then have p: "0 < ?S" by (rule pos)
      from that have n: "n < length (data r)" by simp
      show ?thesis
        using p by (simp add: nth [OF that] nth [OF n] algebra_simps)
    qed
    have bounds: "js_le (js_mul (startRowTime w) (Num 1000)) (fst (data r ! n))
          \<and> js_le (fst (data r ! n)) (js_mul (endRowTime w) (Num 1000))"
      if "n < length (data r)" for n
    proof -
      from that have "0 < length (data r)" by linarith
      then have p: "0 < ?S" by (rule pos)
      from that len have "int n \<le> j - i" by simp
      then have "(of_int i :: rat) + of_nat n \<le> of_int j"
        by (metis add.commute le_diff_eq of_int_add of_int_le_iff of_int_of_nat_eq)
      with p have "?S * (of_int i + of_nat n) \<le> ?S * of_int j"
        by (simp add: mult_le_cancel_left)
      then have up: "?S * of_int i + of_nat n * ?S \<le> ?S * of_int j"
        by (simp add: algebra_simps)
      from p have lo: "?S * of_int i \<le> ?S * of_int i + of_nat n * ?S"
        by simp
      show ?thesis
        using up lo by (simp add: nth [OF that] wv)
    qed
    from step1 bounds show ?thesis by simp
  qed
qed

theorem C2_series_regular_witness:
  "fst (getData exampleQuery Map.empty (Number (Num 950000)) (Number (Num 1000000)) None None)
     = Inr exampleResult
   \<and> snd (selectRRA (getLastUpdate (rrd exampleQuery))
           (js_div (toNumber (Number (Num 950000))) (Num 1000))
           (case None of None \<Rightarrow> ''AVERAGE'' | Some x \<Rightarrow> x) (rras (rrd exampleQuery))
           (None, None)) = Some (candidate 1000 avgRRA)
   \<and> exampleWindow = rowWindow (candidate 1000 avgRRA)
       (js_div (toNumber (Number (Num 950000))) (Num 1000))
       (endTimeOf (rrd exampleQuery) (Number (Num 1000000)))
   \<and> length (data exampleResult) = 5
   \<and> js_le (fst (data exampleResult ! 3)) (fst (data exampleResult ! Suc 3))
   \<and> js_sub (fst (data exampleResult ! Suc 3)) (fst (data exampleResult ! 3))
       = Num (of_int (step (candidate 1000 avgRRA)) * 1000)
   \<and> js_le (js_mul (startRowTime exampleWindow) (Num 1000)) (fst (data exampleResult ! 4))
   \<and> js_le (fst (data exampleResult ! 4)) (js_mul (endRowTime exampleWindow) (Num 1000))"
proof -
  note t = C2_series_regular [OF example_ok example_snd_sel example_window]
  have len: "length (data exampleResult) = 5"
    by (simp add: exampleResult_def)
  have l3: "Suc 3 < length (data exampleResult)" and l4: "4 < length (data exampleResult)"
    by (simp_all add: len)
  from t l3 have a: "js_le (fst (data exampleResult ! 3)) (fst (data exampleResult ! Suc 3))
      \<and> js_sub (fst (data exampleResult ! Suc 3)) (fst (data exampleResult ! 3))
          = Num (of_int (step (candidate 1000 avgRRA)) * 1000)"
    by blast
  from t l4 have b: "js_le (js_mul (startRowTime exampleWindow) (Num 1000))
        (fst (data exampleResult ! 4))
      \<and> js_le (fst (data exampleResult ! 4)) (js_mul (endRowTime exampleWindow) (Num 1000))"
    by blast
  from example_ok example_snd_sel example_window len a b show ?thesis
    by blast
qed


subsection \<open>C3: the range check\<close>

text \<open>
  Claim C3, as stated, fails: with the end time left out, a start time of 2000 seconds is
  at or after the defaulted end time of 1000 seconds, and the query returns an empty series
  instead of raising a RangeError. The test of line 161 compares the arguments as they
  were passed, before the default of line 172 is computed.
\<close>

theorem C3_counterexample:
  "js_ge (js_div (toNumber (Number (Num 2000000))) (Num 1000)) (endTimeOf exampleFile Undefined)
   \<and> fst (getData exampleQuery Map.empty (Number (Num 2000000)) Undefined None None)
       = Inr emptyResult"
  by (simp add: getData_defs example_defs emptyResult_def)

text \<open>
  Claim C3, amended. \<^verbatim>\<open>getData\<close> raises a RangeError, returns no result and changes
  nothing, exactly when \<^verbatim>\<open>startTimeJs >= endTimeJs\<close> holds of the arguments as passed
  (\<^verbatim>\<open>null\<close> counting as 0; a comparison with an omitted value or with not-a-number is
  false). The message names each of the two values that is a number; a value that is
  \<^verbatim>\<open>null\<close> is printed as the empty string. With the end time left out, no RangeError is
  raised, whatever the start time. Whenever a query succeeds with a start time in seconds
  at or after its end time in seconds, which the end time left out allows, the series is
  empty: lines 221 to 224 cap the start row time at the end row time. In particular the
  query from 1000 to 1000 milliseconds fails.
\<close>

theorem C3_range_error:
  "(js_ge (toNumber startTimeJs) (toNumber endTimeJs) \<longrightarrow>
      getData this g startTimeJs endTimeJs dsId cfName
        = (Inl (RangeError (printed startTimeJs) (printed endTimeJs)), g))
   \<and> (\<not> js_ge (toNumber startTimeJs) (toNumber endTimeJs) \<longrightarrow>
      (\<forall>a b. fst (getData this g startTimeJs endTimeJs dsId cfName) \<noteq> Inl (RangeError a b)))
   \<and> (\<forall>a b. fst (getData this g startTimeJs Undefined dsId cfName) \<noteq> Inl (RangeError a b))
   \<and> (fst (getData this g startTimeJs endTimeJs dsId cfName) = Inr r
       \<and> js_ge (js_div (toNumber startTimeJs) (Num 1000)) (endTimeOf (rrd this) endTimeJs)
      \<longrightarrow> data r = [])"
proof -
  have ds: "getDS f i \<noteq> Inl (RangeError a b)" for f i a b
    by (cases i) (auto split: option.splits)
  have nr: "\<forall>a b. fst (getData this g startTimeJs e dsId cfName) \<noteq> Inl (RangeError a b)"
    if "\<not> js_ge (toNumber startTimeJs) (toNumber e)" for e
    using ds that
    by (auto simp: getData_def Let_def split: sum.splits prod.splits option.splits)
  have und: "\<not> js_ge (toNumber startTimeJs) (toNumber Undefined)"
    by (cases "toNumber startTimeJs") simp_all
  have empty: "data r = []"
    if ok: "fst (getData this g startTimeJs endTimeJs dsId cfName) = Inr r"
      and ge: "js_ge (js_div (toNumber startTimeJs) (Num 1000)) (endTimeOf (rrd this) endTimeJs)"
    using ok
  proof (cases rule: getData_shape)
    case (nan_end ds rra sl)
    then show ?thesis by simp
  next
    case (nan_start ds rra sl)
    then show ?thesis by simp
  next
    case (num ds rra sl k i j x et)
    from ge num(4,5) have "et \<le> x / 1000" by simp
    with num(9) have "j \<le> i" by simp
    with num(8) show ?thesis by simp
  qed
  show ?thesis
    using nr [of endTimeJs] nr [OF und] empty
    by (simp add: getData_def)
qed

theorem C3_range_error_witness:
  "js_ge (toNumber (Number (Num 1000))) (toNumber (Number (Num 1000)))
   \<and> getData exampleQuery Map.empty (Number (Num 1000)) (Number (Num 1000)) (Some (DsIndex 0))
         (Some ''AVERAGE'')
       = (Inl (RangeError (Some (Num 1000)) (Some (Num 1000))), Map.empty)
   \<and> js_ge (toNumber (Number (Num 1000))) (toNumber Null)
   \<and> getData exampleQuery Map.empty (Number (Num 1000)) Null None None
       = (Inl (RangeError (Some (Num 1000)) None), Map.empty)
   \<and> \<not> js_ge (toNumber (Number (Num 2000000))) (toNumber Undefined)
   \<and> fst (getData exampleQuery Map.empty (Number (Num 2000000)) Undefined None None)
       \<noteq> Inl (RangeError (Some (Num 2000000)) None)
   \<and> fst (getData exampleQuery Map.empty (Number (Num 2000000)) Undefined None None)
       = Inr emptyResult
   \<and> js_ge (js_div (toNumber (Number (Num 2000000))) (Num 1000))
        (endTimeOf (rrd exampleQuery) Undefined)
   \<and> data emptyResult = []"
proof -
  have ok: "fst (getData exampleQuery Map.empty (Number (Num 2000000)) Undefined None None)
       = Inr emptyResult"
    by (simp add: getData_defs example_defs emptyResult_def)
  have ge: "js_ge (js_div (toNumber (Number (Num 2000000))) (Num 1000))
        (endTimeOf (rrd exampleQuery) Undefined)"
    by (simp add: getData_defs example_defs)
  from ok ge
    C3_range_error [of "Number (Num 1000)" "Number (Num 1000)" exampleQuery Map.empty
          "Some (DsIndex 0)" "Some ''AVERAGE''" emptyResult]
    C3_range_error [of "Number (Num 1000)" Null exampleQuery Map.empty None None emptyResult]
    C3_range_error [of "Number (Num 2000000)" Undefined exampleQuery Map.empty None None
          emptyResult]
  show ?thesis by simp
qed


subsection \<open>C4: the unrecognised consolidation function\<close>

text \<open>
  Claim C4, as stated, fails. The range check of line 161 and the lookup of the data
  source of line 180 come before the archive loop: a query for a consolidation function
  that no archive uses fails with the RangeError when its start time is not before its
  end time, and with the error of the lookup when its data source is unknown, and neither
  names the function. And the test \<^verbatim>\<open>!step\<close> of line 212 is also true of a step of 0:
  a file whose only AVERAGE archive has the step 0 gives the error for AVERAGE.
\<close>

theorem C4_counterexample:
  "map getCFName (rras (rrd exampleQuery)) = [''AVERAGE'', ''MAX'']
   \<and> fst (getData exampleQuery Map.empty (Number (Num 1000)) (Number (Num 1000))
            (Some (DsIndex 0)) (Some ''BOGUS''))
       = Inl (RangeError (Some (Num 1000)) (Some (Num 1000)))
   \<and> fst (getData exampleQuery Map.empty (Number (Num 950000)) (Number (Num 1000000))
            (Some (DsIndex 5)) (Some ''BOGUS''))
       = Inl (LookupError (DsIndex 5))
   \<and> map getCFName (rras zeroStepFile) = [''AVERAGE'', ''MAX'']
   \<and> fst (getData \<lparr>rrd = zeroStepFile, unit = ''B''\<rparr> Map.empty (Number (Num 950000))
            (Number (Num 1000000)) (Some (DsIndex 0)) (Some ''AVERAGE''))
       = Inl (UnrecognisedCF ''AVERAGE'')"
  by (simp add: getData_defs example_defs zeroStepFile_def)

text \<open>
  Claim C4, amended. A query whose consolidation function is used by no archive of the
  file fails; when it passes the range check of line 161 and its data source is found, it
  fails with the error that names the requested function. This error, whenever it is
  raised, names the requested function. It does not come from a lack of coverage: when
  some archive uses the function and every archive that uses it has a non-zero step, the
  error is never raised.
\<close>

theorem C4_unrecognised_cf:
  assumes cf: "cf = (case cfName of None \<Rightarrow> ''AVERAGE'' | Some x \<Rightarrow> x)"
  shows "((\<forall>a\<in>set (rras (rrd this)). getCFName a \<noteq> cf) \<longrightarrow>
            (\<exists>err. fst (getData this g startTimeJs endTimeJs dsId cfName) = Inl err)
          \<and> (\<not> js_ge (toNumber startTimeJs) (toNumber endTimeJs)
             \<and> (\<exists>ds. getDS (rrd this) (case dsId of None \<Rightarrow> DsIndex 0 | Some x \<Rightarrow> x) = Inr ds)
             \<longrightarrow> fst (getData this g startTimeJs endTimeJs dsId cfName)
                   = Inl (UnrecognisedCF cf)))
       \<and> (\<forall>x. fst (getData this g startTimeJs endTimeJs dsId cfName) = Inl (UnrecognisedCF x)
             \<longrightarrow> x = cf)
       \<and> ((\<exists>a\<in>set (rras (rrd this)). getCFName a = cf)
           \<and> (\<forall>a\<in>set (rras (rrd this)). getCFName a = cf \<longrightarrow> getStep a \<noteq> 0) \<longrightarrow>
            (\<forall>x. fst (getData this g startTimeJs endTimeJs dsId cfName)
                   \<noteq> Inl (UnrecognisedCF x)))"
proof -
  let ?sel = "selectRRA (getLastUpdate (rrd this)) (js_div (toNumber startTimeJs) (Num 1000)) cf
                (rras (rrd this)) (None, None)"
  have ds: "getDS f i \<noteq> Inl (UnrecognisedCF x)" for f i x
    by (cases i) (auto split: option.splits)
  have none: "snd ?sel = None" if "\<forall>a\<in>set (rras (rrd this)). getCFName a \<noteq> cf"
    using that by (simp add: selectRRA_None)
  have part1: "\<exists>err. fst (getData this g startTimeJs endTimeJs dsId cfName) = Inl err"
    if "\<forall>a\<in>set (rras (rrd this)). getCFName a \<noteq> cf"
    using none [OF that] cf
    by (auto simp: getData_def Let_def split: sum.splits prod.splits option.splits)
  have part2: "fst (getData this g startTimeJs endTimeJs dsId cfName) = Inl (UnrecognisedCF cf)"
    if "\<forall>a\<in>set (rras (rrd this)). getCFName a \<noteq> cf"
      and "\<not> js_ge (toNumber startTimeJs) (toNumber endTimeJs)"
      and "getDS (rrd this) (case dsId of None \<Rightarrow> DsIndex 0 | Some x \<Rightarrow> x) = Inr ds" for ds
    using none [OF that(1)] that(2,3) cf
    by (auto simp: getData_def Let_def split: sum.splits prod.splits option.splits)
  have other: "fst (getData this g startTimeJs endTimeJs dsId cfName) \<noteq> Inl (UnrecognisedCF x)"
    if "x \<noteq> cf" for x
    using that ds cf
    by (auto simp: getData_def Let_def split: sum.splits prod.splits option.splits)
  have names: "x = cf"
    if "fst (getData this g startTimeJs endTimeJs dsId cfName) = Inl (UnrecognisedCF x)" for x
    using that other by blast
  have part3: "fst (getData this g startTimeJs endTimeJs dsId cfName) \<noteq> Inl (UnrecognisedCF x)"
    if m: "\<exists>a\<in>set (rras (rrd this)). getCFName a = cf"
      and wf: "\<forall>a\<in>set (rras (rrd this)). getCFName a = cf \<longrightarrow> getStep a \<noteq> 0" for x
  proof -
    from m have "snd ?sel \<noteq> None" by (simp add: selectRRA_None)
    then obtain sl where sl: "snd ?sel = Some sl" by auto
    from selectRRA_candidate [OF sl] obtain a where "a \<in> set (rras (rrd this))"
      and "getCFName a = cf" and "sl = candidate (getLastUpdate (rrd this)) a" by auto
    with wf have st: "step sl \<noteq> 0" by (simp add: candidate_def Let_def)
    show ?thesis
      using sl st ds cf
      by (auto simp: getData_def Let_def split: sum.splits prod.splits option.splits)
  qed
  from part1 part2 names part3 show ?thesis by blast
qed

theorem C4_unrecognised_cf_witness:
  "map getCFName (rras (rrd exampleQuery)) = [''AVERAGE'', ''MAX'']
   \<and> map getStep (rras (rrd exampleQuery)) = [10, 10]
   \<and> \<not> js_ge (toNumber (Number (Num 950000))) (toNumber (Number (Num 1000000)))
   \<and> getDS (rrd exampleQuery) (case None of None \<Rightarrow> DsIndex 0 | Some x \<Rightarrow> x)
       = Inr \<lparr>getName = ''value'', getIdx = 0\<rparr>
   \<and> fst (getData exampleQuery Map.empty (Number (Num 950000)) (Number (Num 1000000)) None
            (Some ''BOGUS''))
       = Inl (UnrecognisedCF ''BOGUS'')
   \<and> fst (getData exampleQuery Map.empty (Number (Num 0)) (Number (Num 1000000)) None None)
       \<noteq> Inl (UnrecognisedCF ''AVERAGE'')"
proof -
  have m: "map getCFName (rras (rrd exampleQuery)) = [''AVERAGE'', ''MAX'']"
    and st: "map getStep (rras (rrd exampleQuery)) = [10, 10]"
    by (simp_all add: example_defs)
  have h1: "\<forall>a\<in>set (rras (rrd exampleQuery)). getCFName a \<noteq> ''BOGUS''"
    by (simp add: example_defs)
  have h2: "\<not> js_ge (toNumber (Number (Num 950000))) (toNumber (Number (Num 1000000)))"
    by simp
  have h4: "\<exists>a\<in>set (rras (rrd exampleQuery)). getCFName a = ''AVERAGE''"
    by (simp add: example_defs)
  have h5: "\<forall>a\<in>set (rras (rrd exampleQuery)). getCFName a = ''AVERAGE'' \<longrightarrow> getStep a \<noteq> 0"
    by (simp add: example_defs)
  have c1: "''BOGUS'' = (case Some ''BOGUS'' of None \<Rightarrow> ''AVERAGE'' | Some x \<Rightarrow> x)"
    and c2: "''AVERAGE'' = (case None of None \<Rightarrow> ''AVERAGE'' | Some x \<Rightarrow> x)"
    by simp_all
  note t1 = C4_unrecognised_cf [OF c1, where this = exampleQuery and g = Map.empty
      and startTimeJs = "Number (Num 950000)" and endTimeJs = "Number (Num 1000000)"
      and dsId = None]
  note t2 = C4_unrecognised_cf [OF c2, where this = exampleQuery and g = Map.empty
      and startTimeJs = "Number (Num 0)" and endTimeJs = "Number (Num 1000000)"
      and dsId = None]
  from t1 h1 h2 example_ds
  have a: "fst (getData exampleQuery Map.empty (Number (Num 950000)) (Number (Num 1000000)) None
            (Some ''BOGUS'')) = Inl (UnrecognisedCF ''BOGUS'')"
    by blast
  from t2 h4 h5
  have b: "fst (getData exampleQuery Map.empty (Number (Num 0)) (Number (Num 1000000)) None None)
       \<noteq> Inl (UnrecognisedCF ''AVERAGE'')"
    by blast
  from m st h2 example_ds a b show ?thesis by blast
qed


subsection \<open>C5: the coverage bounds of the file\<close>

text \<open>
  Claim C5: in the result of every successful query, \<open>firstUpdated\<close> is
  \<open>(lastUpdate - (rowCount - 1) * step) * 1000\<close> for the last archive of the file's list,
  and \<open>lastUpdated\<close> is \<open>lastUpdate * 1000\<close>, whichever archive served the series. A
  successful query implies that the file has an archive.
\<close>

theorem C5_coverage_bounds:
  assumes "fst (getData this g startTimeJs endTimeJs dsId cfName) = Inr r"
  shows "rras (rrd this) \<noteq> []
    \<and> firstUpdated r = Num (of_int (getLastUpdate (rrd this)
          - (getNrRows (last (rras (rrd this))) - 1) * getStep (last (rras (rrd this)))) * 1000)
    \<and> lastUpdated r = Num (of_int (getLastUpdate (rrd this)) * 1000)"
  using getData_success [OF assms] by auto

theorem C5_coverage_bounds_witness:
  "fst (getData exampleQuery Map.empty (Number (Num 950000)) (Number (Num 1000000)) None None)
     = Inr exampleResult
   \<and> last (rras (rrd exampleQuery)) = maxRRA
   \<and> firstUpdated exampleResult
       = Num (of_int (1000 - (getNrRows maxRRA - 1) * getStep maxRRA) * 1000)
   \<and> lastUpdated exampleResult = Num (of_int 1000 * 1000)"
  using C5_coverage_bounds [OF example_ok] example_ok
  by (simp add: example_defs)


subsection \<open>C6: one sample for each row\<close>

text \<open>
  Claim C6: for every accepted query, the series has exactly one pair for each row index
  of the half-open range from the start row index to the end row index, in ascending
  order; the pair of the \<open>n\<close>-th index holds the start row time plus \<open>n\<close> steps, times
  1000, and the cell that the accessor returns for that index and the data source. The
  cell is stored as it is returned, so a cell without data appears as not-a-number and no
  row is skipped. Both indices are integers; or the start row index is not-a-number,
  because the end time in seconds or the start time is, the range has no index and the
  series is empty. Here \<open>rra\<close> is the archive that the loop leaves in its variable.
\<close>

theorem C6_one_sample_per_row:
  assumes ok: "fst (getData this g startTimeJs endTimeJs dsId cfName) = Inr r"
    and sel: "selectRRA (getLastUpdate (rrd this)) (js_div (toNumber startTimeJs) (Num 1000))
                (case cfName of None \<Rightarrow> ''AVERAGE'' | Some x \<Rightarrow> x) (rras (rrd this))
                (None, None) = (Some rra, Some s)"
    and ds: "getDS (rrd this) (case dsId of None \<Rightarrow> DsIndex 0 | Some x \<Rightarrow> x) = Inr ds"
    and w: "w = rowWindow s (js_div (toNumber startTimeJs) (Num 1000))
                  (endTimeOf (rrd this) endTimeJs)"
  shows "(\<exists>a b t. startRowIndex w = Num (of_int a) \<and> endRowIndex w = Num (of_int b)
            \<and> startRowTime w = Num t
            \<and> data r = map (\<lambda>n. (Num ((t + of_nat n * of_int (step s)) * 1000),
                                   getEl rra (of_int a + of_nat n) (getIdx ds)))
                         [0..<nat (b - a)])
       \<or> (startRowIndex w = NaN \<and> (endRowIndex w = NaN \<or> toNumber startTimeJs = NaN)
           \<and> data r = [])"
  using ok
proof (cases rule: getData_shape)
  case (nan_end ds' rra' sl)
  from sel nan_end(2) have "sl = s" by simp
  with nan_end(5,6) w show ?thesis by simp
next
  case (nan_start ds' rra' sl)
  from sel nan_start(2) have "sl = s" by simp
  with nan_start(4,6,7) w show ?thesis by simp
next
  case (num ds' rra' sl k i j x et)
  from sel num(2) have eq: "sl = s" "rra' = rra" by simp_all
  from ds num(1) have eqd: "ds' = ds" by simp
  note wv = num(6) [unfolded eq, folded w]
  note dat = num(8) [unfolded eq eqd]
  have "nat (rraRowCount s - (k - j) - (rraRowCount s - (k - i))) = nat (j - i)"
    by simp
  with wv dat have "startRowIndex w = Num (of_int (rraRowCount s - (k - i)))
      \<and> endRowIndex w = Num (of_int (rraRowCount s - (k - j)))
      \<and> startRowTime w = Num (of_int (step s) * of_int i)
      \<and> data r = map (\<lambda>n. (Num ((of_int (step s) * of_int i + of_nat n * of_int (step s)) * 1000),
                             getEl rra (of_int (rraRowCount s - (k - i)) + of_nat n) (getIdx ds)))
                   [0..<nat (rraRowCount s - (k - j) - (rraRowCount s - (k - i)))]"
    by simp
  then show ?thesis by blast
qed

theorem C6_one_sample_per_row_witness:
  "fst (getData exampleQuery Map.empty (Number (Num 950000)) (Number (Num 1000000)) None None)
     = Inr exampleResult
   \<and> selectRRA (getLastUpdate (rrd exampleQuery))
           (js_div (toNumber (Number (Num 950000))) (Num 1000))
           (case None of None \<Rightarrow> ''AVERAGE'' | Some x \<Rightarrow> x) (rras (rrd exampleQuery))
           (None, None) = (Some avgRRA, Some (candidate 1000 avgRRA))
   \<and> getDS (rrd exampleQuery) (case None of None \<Rightarrow> DsIndex 0 | Some x \<Rightarrow> x)
       = Inr \<lparr>getName = ''value'', getIdx = 0\<rparr>
   \<and> exampleWindow = rowWindow (candidate 1000 avgRRA)
       (js_div (toNumber (Number (Num 950000))) (Num 1000))
       (endTimeOf (rrd exampleQuery) (Number (Num 1000000)))
   \<and> ((\<exists>a b t. startRowIndex exampleWindow = Num (of_int a)
            \<and> endRowIndex exampleWindow = Num (of_int b)
            \<and> startRowTime exampleWindow = Num t
            \<and> data exampleResult
                = map (\<lambda>n. (Num ((t + of_nat n * of_int (step (candidate 1000 avgRRA))) * 1000),
                             getEl avgRRA (of_int a + of_nat n)
                               (getIdx \<lparr>getName = ''value'', getIdx = 0\<rparr>)))
                   [0..<nat (b - a)])
       \<or> (startRowIndex exampleWindow = NaN
           \<and> (endRowIndex exampleWindow = NaN \<or> toNumber (Number (Num 950000)) = NaN)
           \<and> data exampleResult = []))"
  by (rule conjI [OF example_ok conjI [OF example_sel conjI [OF example_ds conjI [OF example_window
        C6_one_sample_per_row [OF example_ok example_sel example_ds example_window]]]]])


subsection \<open>C7: the row indices are integers\<close>

text \<open>
  Claim C7, as stated, fails. \<^verbatim>\<open>getData\<close> has no check of the row indices: lines 235 to 243
  use them as computed. The charts pass the result of \<^verbatim>\<open>parseInt\<close> as the start time; when
  it is not-a-number the query is accepted, the start row index is not-a-number, and the
  query returns an empty series instead of failing.
\<close>

theorem C7_counterexample:
  "fst (getData exampleQuery Map.empty (Number NaN) (Number (Num 1000000)) None None)
     = Inr emptyResult
   \<and> snd (selectRRA (getLastUpdate exampleFile) (js_div (toNumber (Number NaN)) (Num 1000))
           ''AVERAGE'' (rras exampleFile) (None, None)) = Some (candidate 1000 avgRRA)
   \<and> startRowIndex (rowWindow (candidate 1000 avgRRA) (js_div (toNumber (Number NaN)) (Num 1000))
        (endTimeOf exampleFile (Number (Num 1000000)))) = NaN
   \<and> endRowIndex (rowWindow (candidate 1000 avgRRA) (js_div (toNumber (Number NaN)) (Num 1000))
        (endTimeOf exampleFile (Number (Num 1000000)))) = Num 10"
  by (simp add: getData_defs example_defs emptyResult_def)

text \<open>
  Claim C7, amended. For every accepted query whose start time is a number and whose end
  time in seconds, as lines 172 to 175 compute it, is a number, the start row index and
  the end row index are integers. No check follows: for every accepted query whose start
  time or end time in seconds is not-a-number, the start row index is not-a-number,
  nothing fails and the series is empty.
\<close>

theorem C7_integral_row_indices:
  assumes ok: "fst (getData this g startTimeJs endTimeJs dsId cfName) = Inr r"
    and sel: "snd (selectRRA (getLastUpdate (rrd this))
                (js_div (toNumber startTimeJs) (Num 1000))
                (case cfName of None \<Rightarrow> ''AVERAGE'' | Some x \<Rightarrow> x) (rras (rrd this))
                (None, None)) = Some s"
    and w: "w = rowWindow s (js_div (toNumber startTimeJs) (Num 1000))
                  (endTimeOf (rrd this) endTimeJs)"
  shows "((\<exists>x. toNumber startTimeJs = Num x) \<and> (\<exists>y. endTimeOf (rrd this) endTimeJs = Num y)
            \<longrightarrow> (\<exists>a b :: int. startRowIndex w = Num (of_int a)
                    \<and> endRowIndex w = Num (of_int b)))
       \<and> (toNumber startTimeJs = NaN \<or> endTimeOf (rrd this) endTimeJs = NaN
            \<longrightarrow> startRowIndex w = NaN \<and> data r = [])"
  using ok
proof (cases rule: getData_shape)
  case (nan_end ds rra sl)
  from sel nan_end(2) have "sl = s" by simp
  with nan_end(4,5,6) w show ?thesis by simp
next
  case (nan_start ds rra sl)
  from sel nan_start(2) have "sl = s" by simp
  with nan_start(4,6,7) w show ?thesis by simp
next
  case (num ds rra sl k i j x et)
  from sel num(2) have eq: "sl = s" by simp
  note wv = num(6) [unfolded eq, folded w]
  have "startRowIndex w = Num (of_int (rraRowCount s - (k - i)))
      \<and> endRowIndex w = Num (of_int (rraRowCount s - (k - j)))"
    by (simp add: wv)
  then have "\<exists>a b :: int. startRowIndex w = Num (of_int a) \<and> endRowIndex w = Num (of_int b)"
    by blast
  with num(4,5) show ?thesis by simp
qed

theorem C7_integral_row_indices_witness:
  "fst (getData exampleQuery Map.empty (Number (Num 950000)) (Number (Num 1000000)) None None)
     = Inr exampleResult
   \<and> snd (selectRRA (getLastUpdate (rrd exampleQuery))
           (js_div (toNumber (Number (Num 950000))) (Num 1000))
           (case None of None \<Rightarrow> ''AVERAGE'' | Some x \<Rightarrow> x) (rras (rrd exampleQuery))
           (None, None)) = Some (candidate 1000 avgRRA)
   \<and> exampleWindow = rowWindow (candidate 1000 avgRRA)
       (js_div (toNumber (Number (Num 950000))) (Num 1000))
       (endTimeOf (rrd exampleQuery) (Number (Num 1000000)))
   \<and> toNumber (Number (Num 950000)) = Num 950000
   \<and> endTimeOf (rrd exampleQuery) (Number (Num 1000000)) = Num 1000
   \<and> (\<exists>a b :: int. startRowIndex exampleWindow = Num (of_int a)
         \<and> endRowIndex exampleWindow = Num (of_int b))
   \<and> fst (getData exampleQuery Map.empty (Number NaN) (Number (Num 1000000)) None None)
       = Inr emptyResult
   \<and> snd (selectRRA (getLastUpdate (rrd exampleQuery))
           (js_div (toNumber (Number NaN)) (Num 1000))
           (case None of None \<Rightarrow> ''AVERAGE'' | Some x \<Rightarrow> x) (rras (rrd exampleQuery))
           (None, None)) = Some (candidate 1000 avgRRA)
   \<and> toNumber (Number NaN) = NaN
   \<and> startRowIndex (rowWindow (candidate 1000 avgRRA)
        (js_div (toNumber (Number NaN)) (Num 1000))
        (endTimeOf (rrd exampleQuery) (Number (Num 1000000)))) = NaN
   \<and> data emptyResult = []"
proof -
  have n1: "toNumber (Number (Num 950000)) = Num 950000" by simp
  have n2: "endTimeOf (rrd exampleQuery) (Number (Num 1000000)) = Num 1000"
    by (simp add: endTimeOf_def)
  have n3: "toNumber (Number NaN) = NaN" by simp
  from C7_integral_row_indices [OF example_ok example_snd_sel example_window] n1 n2
  have a: "\<exists>a b :: int. startRowIndex exampleWindow = Num (of_int a)
         \<and> endRowIndex exampleWindow = Num (of_int b)"
    by blast
  from C7_integral_row_indices [OF nan_start_ok nan_start_snd_sel refl] n3
  have b: "startRowIndex (rowWindow (candidate 1000 avgRRA)
        (js_div (toNumber (Number NaN)) (Num 1000))
        (endTimeOf (rrd exampleQuery) (Number (Num 1000000)))) = NaN \<and> data emptyResult = []"
    by blast
  from example_ok example_snd_sel example_window n1 n2 a nan_start_ok nan_start_snd_sel n3 b
  show ?thesis by blast
qed


subsection \<open>C8: one download in flight\<close>

text \<open>
  Claim C8: while a download of a remote query is outstanding, a further call of
  \<^verbatim>\<open>getData\<close> starts no second download and is chained to the one in flight.

  jrrd.js does so (\<open>jrrd_remote_getData_coalesces\<close>): it starts a download only when
  there is none or when the current one has fired. jarmon.js forgets the current download
  at line 342 whenever the end time is after the last update known to the object, which
  is 0 until a download has completed, and line 294 then starts a new one
  (\<open>remote_getData_restarts\<close>). Two calls with the end time 1000 on a new object, with
  no download completed in between, leave two downloads outstanding in jarmon.js and one
  in jrrd.js.
\<close>

theorem C8_second_download_while_outstanding:
  "started (remote_getData (newRrdQueryRemote ''a.rrd'' ''B'') (Number (Num 1000)))
     = [\<lparr>fired = - 1, chained = 1\<rparr>]
   \<and> download (self (remote_getData (newRrdQueryRemote ''a.rrd'' ''B'') (Number (Num 1000))))
       = Some 0
   \<and> started (remote_getData (remote_getData (newRrdQueryRemote ''a.rrd'' ''B'')
                (Number (Num 1000))) (Number (Num 1000)))
     = [\<lparr>fired = - 1, chained = 1\<rparr>, \<lparr>fired = - 1, chained = 1\<rparr>]
   \<and> outstanding (remote_getData (remote_getData (newRrdQueryRemote ''a.rrd'' ''B'')
                (Number (Num 1000))) (Number (Num 1000))) = [0, 1]
   \<and> started (jrrd_remote_getData (jrrd_remote_getData (newRrdQueryRemote ''a.rrd'' ''B'') 1000)
                1000)
     = [\<lparr>fired = - 1, chained = 2\<rparr>]"
  by (simp add: remote_defs jrrd_remote_getData_def Let_def upt_rec)


subsection \<open>C9: effects of a query\<close>

text \<open>
  Claim C9: \<^verbatim>\<open>getData\<close> has no side effect and retains no state between calls.

  \<^verbatim>\<open>getData\<close> has no assignment to a field of \<^verbatim>\<open>this\<close> or of the RRD file, so the
  query object is the same after the call. But line 252 assigns \<^verbatim>\<open>firstUpdated\<close>, which the
  function does not declare (jrrd.js declares it at line 118): the assignment creates or
  overwrites a property of the global object, which stays after the call
  (\<open>getData_globals\<close>). On the example file, a query started with no global variable
  leaves \<^verbatim>\<open>firstUpdated\<close> set to 810.
\<close>

theorem C9_global_firstUpdated:
  "snd (getData exampleQuery Map.empty (Number (Num 950000)) (Number (Num 1000000)) None None)
     = [''firstUpdated'' \<mapsto> Num 810]"
  by (simp add: getData_defs example_defs)


subsection \<open>C10: a falsy end time\<close>

text \<open>
  Claim C10, as stated, fails: with a start time of 950 seconds, the end time 0 raises a
  RangeError at line 161, where the omitted end time gives the five rows up to the last
  update.
\<close>

theorem C10_counterexample:
  "fst (getData exampleQuery Map.empty (Number (Num 950000)) (Number (Num 0)) None None)
     = Inl (RangeError (Some (Num 950000)) (Some (Num 0)))
   \<and> fst (getData exampleQuery Map.empty (Number (Num 950000)) Undefined None None)
       = Inr exampleResult"
  by (simp add: getData_defs example_defs exampleResult_def)

text \<open>
  Claim C10, amended: for every query that passes the range check of line 161, a falsy end
  time (0, not-a-number, \<^verbatim>\<open>null\<close> or omitted) gives the result and the effect of the
  omitted end time, the end time in seconds being \<open>lastUpdate - lastUpdate % minStep\<close>.
  (An end time of 0 or \<^verbatim>\<open>null\<close> passes the range check only with a start time that is
  negative or not a number.)
\<close>

theorem C10_falsy_end_after_range_check:
  assumes "\<not> truthy endTimeJs" and "\<not> js_ge (toNumber startTimeJs) (toNumber endTimeJs)"
  shows "getData this g startTimeJs endTimeJs dsId cfName
           = getData this g startTimeJs Undefined dsId cfName
    \<and> endTimeOf (rrd this) endTimeJs
        = js_sub (Num (of_int (getLastUpdate (rrd this))))
            (js_mod (Num (of_int (getLastUpdate (rrd this))))
               (Num (of_int (getMinStep (rrd this)))))"
proof -
  have und: "\<not> js_ge (toNumber startTimeJs) (toNumber Undefined)"
    by (cases "toNumber startTimeJs") simp_all
  from assms und show ?thesis
    by (simp add: getData_def endTimeOf_def)
qed

theorem C10_falsy_end_after_range_check_witness:
  "\<not> truthy (Number (Num 0))
   \<and> \<not> js_ge (toNumber (Number (Num (- 1000)))) (toNumber (Number (Num 0)))
   \<and> getData exampleQuery Map.empty (Number (Num (- 1000))) (Number (Num 0)) None None
       = getData exampleQuery Map.empty (Number (Num (- 1000))) Undefined None None
   \<and> endTimeOf (rrd exampleQuery) (Number (Num 0)) = Num 1000"
  using C10_falsy_end_after_range_check [of "Number (Num 0)" "Number (Num (- 1000))"
          exampleQuery Map.empty None None]
  by (simp add: example_defs)

end
